theory Spec2Isabelle
  imports Complex_Main
begin

section \<open>Conventions of the embedding\<close>

text \<open>
  The Python sources are embedded function by function.  A Python \<^verbatim>\<open>float\<close> that is
  stored in a record or compared by the risk tool is read as an exact real number.  The
  arithmetic that \<^verbatim>\<open>calculate_rsi\<close> does on numpy arrays and numpy scalars is not read
  that way: it is a parameter of the model, and only the value nan, which numpy
  produces whatever the numbers are (the mean of an empty slice), is explicit, as the
  extra value \<open>NaN\<close> of \<open>pyfloat\<close>.
  A raised exception is the \<open>Inl\<close> branch of a sum type.  A dictionary with a fixed set
  of keys is a record (a key a code path may leave out is an \<open>option\<close> field); where
  two dictionaries share a key name, the field name carries a short prefix.
\<close>

datatype py_error = ZeroDivisionError

datatype 'f pyfloat = Num 'f | NaN

section \<open>tools/risk.py\<close>

record stop_loss_result =
  triggered :: bool
  current_loss_pct :: real
  sl_stop_loss_pct :: real
  sl_action :: string

record position_size_result =
  ps_is_valid :: bool
  ps_proposed_size :: real
  ps_max_allowed :: real
  ps_size_pct :: real
  ps_action :: string

record exposure_result =
  ex_is_valid :: bool
  total_exposure :: real
  exposure_pct :: real
  max_exposure_pct :: real
  ex_action :: string

record volatility_result =
  vol_is_valid :: bool
  current_volatility :: real
  vol_max_volatility :: real
  vol_action :: string

text \<open>The dictionary \<^verbatim>\<open>checks\<close> that \<^verbatim>\<open>check_risk_constraints\<close> builds and returns.\<close>

record risk_checks =
  rc_symbol :: string
  rc_proposed_action :: string
  all_checks_passed :: bool
  warnings :: "string list"
  blockers :: "string list"
  position_size_check :: "position_size_result option"
  exposure_check :: "exposure_result option"
  volatility_check :: "volatility_result option"
  stop_loss_check :: "stop_loss_result option"
  recommended_action :: "string option"
  risk_signal :: "string option"

text \<open>
  \<^verbatim>\<open>loss_pct = (entry_price - current_price) / entry_price\<close> divides two Python floats:
  a zero divisor raises \<^verbatim>\<open>ZeroDivisionError\<close>.
\<close>

definition check_stop_loss :: "real \<Rightarrow> real \<Rightarrow> real \<Rightarrow> py_error + stop_loss_result" where
  "check_stop_loss current_price entry_price stop_loss_pct =
     (if entry_price = 0 then Inl ZeroDivisionError
      else
        let loss_pct = (entry_price - current_price) / entry_price;
            trig = (loss_pct \<ge> stop_loss_pct)
        in Inr \<lparr>triggered = trig,
                current_loss_pct = loss_pct * 100,
                sl_stop_loss_pct = stop_loss_pct * 100,
                sl_action = (if trig then ''close_position'' else ''hold'')\<rparr>)"

definition check_position_size :: "real \<Rightarrow> real \<Rightarrow> real \<Rightarrow> position_size_result" where
  "check_position_size proposed_size account_balance max_position_pct =
     (let max_allowed = account_balance * max_position_pct;
          is_valid = (proposed_size \<le> max_allowed)
      in \<lparr>ps_is_valid = is_valid,
          ps_proposed_size = proposed_size,
          ps_max_allowed = max_allowed,
          ps_size_pct = (if account_balance > 0 then proposed_size / account_balance * 100 else 0),
          ps_action = (if is_valid then ''proceed'' else ''reduce_size'')\<rparr>)"

text \<open>\<^verbatim>\<open>current_positions\<close> is a dictionary symbol -> position value, kept as its item list.\<close>

definition check_exposure_limits :: "(string \<times> real) list \<Rightarrow> real \<Rightarrow> real \<Rightarrow> exposure_result" where
  "check_exposure_limits current_positions account_balance max_total_exposure =
     (let total = sum_list (map snd current_positions);
          pct = (if account_balance > 0 then total / account_balance else 0);
          is_valid = (pct \<le> max_total_exposure)
      in \<lparr>ex_is_valid = is_valid,
          total_exposure = total,
          exposure_pct = pct * 100,
          max_exposure_pct = max_total_exposure * 100,
          ex_action = (if is_valid then ''proceed'' else ''reduce_exposure'')\<rparr>)"

definition check_volatility_limit :: "real \<Rightarrow> real \<Rightarrow> volatility_result" where
  "check_volatility_limit volatility max_volatility =
     (let is_valid = (volatility \<le> max_volatility)
      in \<lparr>vol_is_valid = is_valid,
          current_volatility = volatility * 100,
          vol_max_volatility = max_volatility * 100,
          vol_action = (if is_valid then ''proceed'' else ''reduce_size_or_avoid'')\<rparr>)"

text \<open>\<^verbatim>\<open>d.get(key, default)\<close> on a dictionary of floats.\<close>

definition dict_get :: "(string \<rightharpoonup> real) \<Rightarrow> string \<Rightarrow> real \<Rightarrow> real" where
  "dict_get d k dflt = (case d k of None \<Rightarrow> dflt | Some v \<Rightarrow> v)"

definition default_risk_params :: "string \<rightharpoonup> real" where
  "default_risk_params =
     [''stop_loss_pct'' \<mapsto> 5 / 100, ''max_position_pct'' \<mapsto> 10 / 100,
      ''max_total_exposure'' \<mapsto> 50 / 100, ''max_volatility'' \<mapsto> 5 / 100]"

text \<open>
  The body of \<^verbatim>\<open>check_risk_constraints\<close>, one definition per block of the source, each
  taking the dictionary built so far and returning it updated.  The caller's defaults
  (\<^verbatim>\<open>current_positions=None\<close>, \<^verbatim>\<open>risk_params=None\<close>) are the \<open>None\<close> arguments.
\<close>

definition position_size_block :: "string \<Rightarrow> real \<Rightarrow> real \<Rightarrow> (string \<rightharpoonup> real) \<Rightarrow> risk_checks \<Rightarrow> risk_checks" where
  "position_size_block proposed_action proposed_size account_balance params checks =
     (if proposed_action = ''buy'' then
        let size_check = check_position_size proposed_size account_balance
                           (dict_get params ''max_position_pct'' (1 / 10));
            checks1 = checks\<lparr>position_size_check := Some size_check\<rparr>
        in if \<not> ps_is_valid size_check
           then checks1\<lparr>all_checks_passed := False,
                        blockers := blockers checks1 @ [''Position size exceeds limit'']\<rparr>
           else checks1
      else checks)"

definition exposure_block :: "string \<Rightarrow> (string \<times> real) list \<Rightarrow> real \<Rightarrow> (string \<rightharpoonup> real) \<Rightarrow> risk_checks \<Rightarrow> risk_checks" where
  "exposure_block proposed_action current_positions account_balance params checks =
     (let exposure = check_exposure_limits current_positions account_balance
                       (dict_get params ''max_total_exposure'' (1 / 2));
          checks1 = checks\<lparr>exposure_check := Some exposure\<rparr>
      in if \<not> ex_is_valid exposure \<and> proposed_action = ''buy''
         then checks1\<lparr>all_checks_passed := False,
                      blockers := blockers checks1 @ [''Total exposure exceeds limit'']\<rparr>
         else checks1)"

definition volatility_block :: "string \<Rightarrow> real \<Rightarrow> (string \<rightharpoonup> real) \<Rightarrow> risk_checks \<Rightarrow> risk_checks" where
  "volatility_block proposed_action volatility params checks =
     (let vol_check = check_volatility_limit volatility (dict_get params ''max_volatility'' (5 / 100));
          checks1 = checks\<lparr>volatility_check := Some vol_check\<rparr>
      in if \<not> vol_is_valid vol_check then
           let checks2 = checks1\<lparr>warnings := warnings checks1 @ [''High volatility detected'']\<rparr>
           in if proposed_action = ''buy''
              then checks2\<lparr>blockers := blockers checks2 @ [''Volatility too high for new positions''],
                           all_checks_passed := False\<rparr>
              else checks2
         else checks1)"

definition stop_loss_block :: "string \<Rightarrow> real \<Rightarrow> real option \<Rightarrow> (string \<rightharpoonup> real) \<Rightarrow> risk_checks \<Rightarrow> py_error + risk_checks" where
  "stop_loss_block proposed_action current_price entry_price params checks =
     (case entry_price of
        None \<Rightarrow> Inr checks
      | Some ep \<Rightarrow>
          if proposed_action \<noteq> ''buy'' then
            (case check_stop_loss current_price ep (dict_get params ''stop_loss_pct'' (5 / 100)) of
               Inl e \<Rightarrow> Inl e
             | Inr sl \<Rightarrow>
                 let checks1 = checks\<lparr>stop_loss_check := Some sl\<rparr>
                 in if triggered sl
                    then Inr (checks1\<lparr>warnings := warnings checks1 @ [''Stop loss triggered''],
                                      recommended_action := Some ''close_position''\<rparr>)
                    else Inr checks1)
          else Inr checks)"

definition final_recommendation :: "risk_checks \<Rightarrow> risk_checks" where
  "final_recommendation checks =
     (if all_checks_passed checks then checks\<lparr>risk_signal := Some ''proceed''\<rparr>
      else checks\<lparr>risk_signal := Some ''block''\<rparr>)"

definition check_risk_constraints ::
  "string \<Rightarrow> string \<Rightarrow> real \<Rightarrow> real \<Rightarrow> real \<Rightarrow> (string \<times> real) list option \<Rightarrow> real option \<Rightarrow> real
     \<Rightarrow> (string \<rightharpoonup> real) option \<Rightarrow> py_error + risk_checks" where
  "check_risk_constraints symbol proposed_action proposed_size current_price account_balance
       current_positions entry_price volatility risk_params =
     (let positions = (case current_positions of None \<Rightarrow> [] | Some ps \<Rightarrow> ps);
          params = (case risk_params of None \<Rightarrow> default_risk_params | Some p \<Rightarrow> p);
          checks = \<lparr>rc_symbol = symbol, rc_proposed_action = proposed_action,
                    all_checks_passed = True, warnings = [], blockers = [],
                    position_size_check = None, exposure_check = None,
                    volatility_check = None, stop_loss_check = None,
                    recommended_action = None, risk_signal = None\<rparr>;
          checks1 = position_size_block proposed_action proposed_size account_balance params checks;
          checks2 = exposure_block proposed_action positions account_balance params checks1;
          checks3 = volatility_block proposed_action volatility params checks2
      in case stop_loss_block proposed_action current_price entry_price params checks3 of
           Inl e \<Rightarrow> Inl e
         | Inr checks4 \<Rightarrow> Inr (final_recommendation checks4))"

section \<open>tools/market.py: calculate\_rsi\<close>

text \<open>
  The arithmetic of numpy is not among the sources; the model takes it as a parameter.
  \<open>'a\<close> is the element type of the array that \<^verbatim>\<open>np.diff(prices)\<close> returns (float64 for
  a list of floats, nan and the infinities included; int64 for a list of ints) and \<open>'f\<close>
  the non-nan values of float64.  An operation of float64 may give nan, so it returns a
  \<open>pyfloat\<close>.
\<close>

record ('a, 'f) np_ops =
  elem_sub :: "'a \<Rightarrow> 'a \<Rightarrow> 'a"
  elem_gt_zero :: "'a \<Rightarrow> bool"
  elem_lt_zero :: "'a \<Rightarrow> bool"
  elem_neg :: "'a \<Rightarrow> 'a"
  elem_zero :: 'a
  mean_nonempty :: "'a list \<Rightarrow> 'f pyfloat"
  float_lit :: "int \<Rightarrow> 'f"
  float_is_zero :: "'f \<Rightarrow> bool"
  float_add :: "'f \<Rightarrow> 'f \<Rightarrow> 'f pyfloat"
  float_sub :: "'f \<Rightarrow> 'f \<Rightarrow> 'f pyfloat"
  float_div :: "'f \<Rightarrow> 'f \<Rightarrow> 'f pyfloat"

text \<open>An operation with a nan operand gives nan.\<close>

definition lift2 :: "('f \<Rightarrow> 'f \<Rightarrow> 'f pyfloat) \<Rightarrow> 'f pyfloat \<Rightarrow> 'f pyfloat \<Rightarrow> 'f pyfloat" where
  "lift2 f a b =
     (case a of
        NaN \<Rightarrow> NaN
      | Num x \<Rightarrow> (case b of NaN \<Rightarrow> NaN | Num y \<Rightarrow> f x y))"

text \<open>\<^verbatim>\<open>np.diff\<close> of a one-dimensional array: the differences of neighbours.\<close>

fun np_diff :: "('a, 'f) np_ops \<Rightarrow> 'a list \<Rightarrow> 'a list" where
  "np_diff ops (x # y # ys) = elem_sub ops y x # np_diff ops (y # ys)"
| "np_diff ops [x] = []"
| "np_diff ops [] = []"

text \<open>
  The slice \<^verbatim>\<open>xs[start:]\<close>: a negative start counts from the end and is clipped at the
  front, a start past the end gives the empty slice.  \<^verbatim>\<open>xs[-period:]\<close> is
  \<open>slice_from (- period) xs\<close>; for \<open>period = 0\<close> the start is \<open>0\<close> and the slice is
  the whole array.
\<close>

definition slice_from :: "int \<Rightarrow> 'a list \<Rightarrow> 'a list" where
  "slice_from start xs =
     (let n = int (length xs);
          i = (if start < 0 then max (n + start) 0 else min start n)
      in drop (nat i) xs)"

text \<open>\<^verbatim>\<open>np.mean\<close>: the mean of an empty slice is nan (numpy warns and returns it).\<close>

definition np_mean :: "('a, 'f) np_ops \<Rightarrow> 'a list \<Rightarrow> 'f pyfloat" where
  "np_mean ops xs = (if xs = [] then NaN else mean_nonempty ops xs)"

text \<open>\<^verbatim>\<open>np.where(deltas > 0, deltas, 0)\<close> and \<^verbatim>\<open>np.where(deltas < 0, -deltas, 0)\<close>.\<close>

definition gains :: "('a, 'f) np_ops \<Rightarrow> 'a list \<Rightarrow> 'a list" where
  "gains ops prices =
     map (\<lambda>d. if elem_gt_zero ops d then d else elem_zero ops) (np_diff ops prices)"

definition losses :: "('a, 'f) np_ops \<Rightarrow> 'a list \<Rightarrow> 'a list" where
  "losses ops prices =
     map (\<lambda>d. if elem_lt_zero ops d then elem_neg ops d else elem_zero ops) (np_diff ops prices)"

definition avg_gain :: "('a, 'f) np_ops \<Rightarrow> 'a list \<Rightarrow> int \<Rightarrow> 'f pyfloat" where
  "avg_gain ops prices period = np_mean ops (slice_from (- period) (gains ops prices))"

definition avg_loss :: "('a, 'f) np_ops \<Rightarrow> 'a list \<Rightarrow> int \<Rightarrow> 'f pyfloat" where
  "avg_loss ops prices period = np_mean ops (slice_from (- period) (losses ops prices))"

text \<open>\<^verbatim>\<open>avg_loss == 0\<close>: false for nan.\<close>

definition equals_zero :: "('a, 'f) np_ops \<Rightarrow> 'f pyfloat \<Rightarrow> bool" where
  "equals_zero ops v = (case v of NaN \<Rightarrow> False | Num x \<Rightarrow> float_is_zero ops x)"

definition calculate_rsi :: "('a, 'f) np_ops \<Rightarrow> 'a list \<Rightarrow> int \<Rightarrow> 'f pyfloat" where
  "calculate_rsi ops prices period =
     (if int (length prices) < period + 1 then Num (float_lit ops 50)
      else if equals_zero ops (avg_loss ops prices period) then Num (float_lit ops 100)
      else
        let rs = lift2 (float_div ops) (avg_gain ops prices period) (avg_loss ops prices period);
            hundred = Num (float_lit ops 100)
        in lift2 (float_sub ops) hundred
             (lift2 (float_div ops) hundred (lift2 (float_add ops) (Num (float_lit ops 1)) rs)))"

section \<open>agents/market: schema\<close>

record MarketWorkerOutput =
  rsi :: "real pyfloat"
  rsi_signal :: string
  ema_short :: real
  ema_long :: real
  ema_signal :: string
  volume_ratio :: real
  volume_signal :: string
  trend_direction :: string
  trend_strength :: real

text \<open>
  \<^verbatim>\<open>MarketEvaluation\<close> and \<^verbatim>\<open>RiskEvaluation\<close> declare the same six fields; one record
  serves both.
\<close>

record Evaluation =
  is_valid :: bool
  confidence :: real
  quality_score :: real
  issues :: "string list"
  summary :: string
  recommendation :: string

type_synonym MarketEvaluation = Evaluation

text \<open>
  The evaluator's feedback is an f-string over the evaluation's confidence, quality
  score and issues; it is kept as these three arguments.
\<close>

datatype feedback = Validation_failed real real "string list"

record MarketSubgraphState =
  symbol :: string
  prices :: "real list"
  volumes :: "real list"
  worker_output :: "MarketWorkerOutput option"
  evaluation :: "MarketEvaluation option"
  retry_count :: int
  max_retries :: int
  evaluator_feedback :: "feedback option"
  completed :: bool
  error :: "string option"

section \<open>agents/market/worker.py\<close>

text \<open>
  The body of the worker's \<^verbatim>\<open>try\<close> up to the construction of \<^verbatim>\<open>worker_output\<close> (the
  indicator computation of \<^verbatim>\<open>tools/market.py\<close> and the signals derived from it) is a
  parameter: from the symbol, the prices and the volumes it yields the output, or
  \<open>Inl\<close> the message of the exception it raised.  The worker reads nothing else
  of the state; \<^verbatim>\<open>retry_count\<close> and the feedback are only logged.
\<close>

type_synonym market_compute = "string \<Rightarrow> real list \<Rightarrow> real list \<Rightarrow> string + MarketWorkerOutput"

text \<open>
  Both \<^verbatim>\<open>return\<close> statements build a new \<^verbatim>\<open>MarketSubgraphState\<close> and pass neither
  \<^verbatim>\<open>retry_count\<close> nor \<^verbatim>\<open>max_retries\<close> nor \<^verbatim>\<open>evaluator_feedback\<close>: the new object holds
  the schema's defaults \<open>0\<close>, \<open>2\<close> and \<open>None\<close> there.
\<close>

definition market_worker :: "market_compute \<Rightarrow> MarketSubgraphState \<Rightarrow> MarketSubgraphState" where
  "market_worker compute state =
     (case compute (symbol state) (prices state) (volumes state) of
        Inr out \<Rightarrow>
          \<lparr>symbol = symbol state, prices = prices state, volumes = volumes state,
           worker_output = Some out, evaluation = evaluation state,
           retry_count = 0, max_retries = 2, evaluator_feedback = None,
           completed = False, error = None\<rparr>
      | Inl e \<Rightarrow>
          \<lparr>symbol = symbol state, prices = prices state, volumes = volumes state,
           worker_output = None, evaluation = None,
           retry_count = 0, max_retries = 2, evaluator_feedback = None,
           completed = True, error = Some (''Market worker failed: '' @ e)\<rparr>)"

section \<open>agents/market/evaluator.py\<close>

text \<open>
  The judgment function (\<^verbatim>\<open>chain.invoke\<close>: prompt, model and parser) is an oracle: \<open>judge n\<close>
  is what its \<open>n\<close>-th call in the run gives, a parsed evaluation or \<open>Inl\<close> the message
  of the exception it raised.  The evaluator takes the number of calls made so far and
  returns it advanced.
\<close>

type_synonym judge = "nat \<Rightarrow> string + Evaluation"

text \<open>
  The loop \<^verbatim>\<open>for attempt in range(max_retries)\<close> with \<^verbatim>\<open>max_retries = 3\<close>: the first
  argument counts the attempts left.  A successful call binds \<^verbatim>\<open>evaluation\<close> and breaks;
  a failed one is logged and the loop goes on.  (The text appended to
  \<^verbatim>\<open>human_message\<close> after a failure is not read again: the prompt was built before the
  loop.)  The result is the bound evaluation, if any, and the advanced call count.
\<close>

fun invoke_chain :: "judge \<Rightarrow> nat \<Rightarrow> nat \<Rightarrow> Evaluation option \<times> nat" where
  "invoke_chain judge 0 n = (None, n)"
| "invoke_chain judge (Suc k) n =
     (case judge n of
        Inr ev \<Rightarrow> (Some ev, Suc n)
      | Inl e \<Rightarrow> invoke_chain judge k (Suc n))"

text \<open>
  When all three attempts fail the loop ends with \<^verbatim>\<open>evaluation\<close> unbound, and the next
  statement, which reads \<^verbatim>\<open>evaluation.is_valid\<close>, raises \<^verbatim>\<open>UnboundLocalError\<close> with this
  message (Python 3.11 and later); the outer handler catches it.
\<close>

definition unbound_evaluation :: string where
  "unbound_evaluation =
     ''cannot access local variable 'evaluation' where it is not associated with a value''"

text \<open>The \<^verbatim>\<open>except Exception as e\<close> branch of the evaluator, with \<open>msg = str(e)\<close>.\<close>

definition evaluator_failed :: "MarketSubgraphState \<Rightarrow> string \<Rightarrow> MarketSubgraphState" where
  "evaluator_failed state msg =
     \<lparr>symbol = symbol state, prices = prices state, volumes = volumes state,
      worker_output = worker_output state,
      evaluation = Some \<lparr>is_valid = False, confidence = 0, quality_score = 0,
                         issues = [''Evaluation failed: '' @ msg],
                         summary = ''Evaluation error'',
                         recommendation = ''Unable to evaluate - treat with caution''\<rparr>,
      retry_count = 0, max_retries = 2, evaluator_feedback = None,
      completed = True, error = Some (''Evaluator failed: '' @ msg)\<rparr>"

definition market_evaluator :: "judge \<Rightarrow> nat \<Rightarrow> MarketSubgraphState \<Rightarrow> MarketSubgraphState \<times> nat" where
  "market_evaluator judge n state =
     (case worker_output state of
        None \<Rightarrow> (evaluator_failed state ''No worker output to evaluate'', n)
      | Some out \<Rightarrow>
          (case invoke_chain judge 3 n of
             (None, n') \<Rightarrow> (evaluator_failed state unbound_evaluation, n')
           | (Some ev, n') \<Rightarrow>
               (\<lparr>symbol = symbol state, prices = prices state, volumes = volumes state,
                 worker_output = worker_output state,
                 evaluation = Some ev,
                 retry_count = (if \<not> is_valid ev then retry_count state + 1 else retry_count state),
                 max_retries = max_retries state,
                 evaluator_feedback =
                   (if \<not> is_valid ev
                    then Some (Validation_failed (confidence ev) (quality_score ev) (issues ev))
                    else None),
                 completed = is_valid ev,
                 error = None\<rparr>, n')))"

section \<open>agents/market/graph.py\<close>

text \<open>What the decider returns: the string \<^verbatim>\<open>"worker"\<close> or the constant \<^verbatim>\<open>END\<close>.\<close>

datatype route = To_worker | END

definition should_retry_worker :: "MarketSubgraphState \<Rightarrow> route" where
  "should_retry_worker state =
     (case evaluation state of
        None \<Rightarrow> END
      | Some ev \<Rightarrow>
          if is_valid ev then END
          else if retry_count state > max_retries state then END
          else To_worker)"

text \<open>
  Modelled from the spec: the executor (section 4.2) belongs to the graph library, which
  is not among the sources.  It runs the current node on the state, merges the node's
  result into the state, resolves the next node (the static edge, or the decider on the
  updated state looked up in the conditional table) and stops at the terminal marker; a
  step budget bounds the loop, and exceeding it is an error.  The merge overwrites every
  field present in the result; the nodes of this repository return complete state
  objects, in which every field has a value, so the merged state is the returned one.

  \<^verbatim>\<open>create_market_subgraph\<close> declares the nodes \<^verbatim>\<open>worker\<close> (entry) and \<^verbatim>\<open>evaluator\<close>, the
  static edge from the worker to the evaluator and the conditional edge from the
  evaluator through \<^verbatim>\<open>should_retry_worker\<close> with the table \<^verbatim>\<open>{"worker": "worker", END: END}\<close>.
  \<open>exec\<close> returns the node executions in order, each with the state after it, and the
  outcome.
\<close>

datatype node = Worker | Evaluator

datatype exec_error = StepLimitExceeded | Raised string

fun exec :: "nat \<Rightarrow> judge \<Rightarrow> market_compute \<Rightarrow> node \<Rightarrow> nat \<Rightarrow> MarketSubgraphState
               \<Rightarrow> (node \<times> MarketSubgraphState) list \<times> (exec_error + MarketSubgraphState)" where
  "exec 0 judge compute nd n state = ([], Inl StepLimitExceeded)"
| "exec (Suc budget) judge compute Worker n state =
     (let state' = market_worker compute state;
          (steps, outcome) = exec budget judge compute Evaluator n state'
      in ((Worker, state') # steps, outcome))"
| "exec (Suc budget) judge compute Evaluator n state =
     (case market_evaluator judge n state of
        (state', n') \<Rightarrow>
          (case should_retry_worker state' of
             END \<Rightarrow> ([(Evaluator, state')], Inr state')
           | To_worker \<Rightarrow>
               (let (steps, outcome) = exec budget judge compute Worker n' state'
                in ((Evaluator, state') # steps, outcome))))"

definition invoke :: "nat \<Rightarrow> judge \<Rightarrow> market_compute \<Rightarrow> MarketSubgraphState
                        \<Rightarrow> exec_error + MarketSubgraphState" where
  "invoke budget judge compute state = snd (exec budget judge compute Worker 0 state)"

text \<open>The state the bridge node builds: \<^verbatim>\<open>MarketSubgraphState(symbol=..., prices=..., volumes=...)\<close>.\<close>

definition initial_state :: "string \<Rightarrow> real list \<Rightarrow> real list \<Rightarrow> MarketSubgraphState" where
  "initial_state name ps vs =
     \<lparr>symbol = name, prices = ps, volumes = vs, worker_output = None, evaluation = None,
      retry_count = 0, max_retries = 2, evaluator_feedback = None,
      completed = False, error = None\<rparr>"

section \<open>agents/risk: schema, worker, evaluator\<close>

text \<open>
  The fields of the risk subgraph's records carry the prefixes \<open>wo_\<close> (worker output)
  and \<open>r_\<close> (state) where the name is already a field of another record.
\<close>

record RiskWorkerOutput =
  wo_stop_loss_check :: bool
  stop_loss_message :: string
  wo_position_size_check :: bool
  position_size_message :: string
  wo_exposure_check :: bool
  exposure_message :: string
  wo_all_checks_passed :: bool
  risk_level :: string

type_synonym RiskEvaluation = Evaluation

record RiskSubgraphState =
  r_symbol :: string
  current_price :: real
  proposed_action :: string
  proposed_quantity :: int
  stop_loss :: "real option"
  take_profit :: "real option"
  r_worker_output :: "RiskWorkerOutput option"
  r_evaluation :: "RiskEvaluation option"
  r_retry_count :: int
  r_max_retries :: int
  r_evaluator_feedback :: "feedback option"
  r_completed :: bool
  r_error :: "string option"

text \<open>\<open>str(e)\<close> of the one exception the risk tool raises.\<close>

fun str_py_error :: "py_error \<Rightarrow> string" where
  "str_py_error ZeroDivisionError = ''float division by zero''"

text \<open>
  The worker calls \<^verbatim>\<open>check_risk_constraints\<close> with a balance of 100000, the state's
  \<^verbatim>\<open>stop_loss\<close> as entry price and the defaults for positions, volatility (0.02) and
  parameters.  The dictionaries of the position, exposure and stop-loss checks have no
  \<^verbatim>\<open>"message"\<close> key and the stop-loss one no \<^verbatim>\<open>"is_valid"\<close> key, so those lookups give
  their defaults.  As in the market worker, neither \<^verbatim>\<open>return\<close> passes \<^verbatim>\<open>retry_count\<close>,
  \<^verbatim>\<open>max_retries\<close> or \<^verbatim>\<open>evaluator_feedback\<close>.
\<close>

definition risk_worker :: "RiskSubgraphState \<Rightarrow> RiskSubgraphState" where
  "risk_worker state =
     (case check_risk_constraints (r_symbol state) (proposed_action state)
             (real_of_int (proposed_quantity state) * current_price state)
             (current_price state) 100000 None (stop_loss state) (2 / 100) None of
        Inr checks \<Rightarrow>
          let lvl = (if \<not> all_checks_passed checks then ''high''
                     else if warnings checks \<noteq> [] then ''medium'' else ''low'');
              out = \<lparr>wo_stop_loss_check = True,
                     stop_loss_message = ''No stop loss check'',
                     wo_position_size_check =
                       (case position_size_check checks of None \<Rightarrow> True | Some c \<Rightarrow> ps_is_valid c),
                     position_size_message = ''Position size OK'',
                     wo_exposure_check =
                       (case exposure_check checks of None \<Rightarrow> True | Some c \<Rightarrow> ex_is_valid c),
                     exposure_message = ''Exposure OK'',
                     wo_all_checks_passed = all_checks_passed checks,
                     risk_level = lvl\<rparr>
          in \<lparr>r_symbol = r_symbol state, current_price = current_price state,
              proposed_action = proposed_action state,
              proposed_quantity = proposed_quantity state,
              stop_loss = stop_loss state, take_profit = take_profit state,
              r_worker_output = Some out, r_evaluation = r_evaluation state,
              r_retry_count = 0, r_max_retries = 2, r_evaluator_feedback = None,
              r_completed = False, r_error = None\<rparr>
      | Inl e \<Rightarrow>
          \<lparr>r_symbol = r_symbol state, current_price = current_price state,
           proposed_action = proposed_action state,
           proposed_quantity = proposed_quantity state,
           stop_loss = stop_loss state, take_profit = take_profit state,
           r_worker_output = None, r_evaluation = None,
           r_retry_count = 0, r_max_retries = 2, r_evaluator_feedback = None,
           r_completed = True, r_error = Some (''Risk worker failed: '' @ str_py_error e)\<rparr>)"

text \<open>
  The risk evaluator's loop re-raises on the final attempt (\<^verbatim>\<open>else: raise\<close>), so the outer
  handler sees the judgment function's own exception.
\<close>

fun risk_invoke_chain :: "judge \<Rightarrow> nat \<Rightarrow> nat \<Rightarrow> (string + Evaluation) \<times> nat" where
  "risk_invoke_chain judge 0 n = (Inl unbound_evaluation, n)"
| "risk_invoke_chain judge (Suc k) n =
     (case judge n of
        Inr ev \<Rightarrow> (Inr ev, Suc n)
      | Inl e \<Rightarrow> if k = 0 then (Inl e, Suc n) else risk_invoke_chain judge k (Suc n))"

definition risk_evaluator_failed :: "RiskSubgraphState \<Rightarrow> string \<Rightarrow> RiskSubgraphState" where
  "risk_evaluator_failed state msg =
     \<lparr>r_symbol = r_symbol state, current_price = current_price state,
      proposed_action = proposed_action state, proposed_quantity = proposed_quantity state,
      stop_loss = stop_loss state, take_profit = take_profit state,
      r_worker_output = r_worker_output state,
      r_evaluation = Some \<lparr>is_valid = False, confidence = 0, quality_score = 0,
                           issues = [''Evaluation failed: '' @ msg],
                           summary = ''Evaluation error'',
                           recommendation = ''Unable to evaluate - proceed with extreme caution''\<rparr>,
      r_retry_count = 0, r_max_retries = 2, r_evaluator_feedback = None,
      r_completed = True, r_error = Some (''Evaluator failed: '' @ msg)\<rparr>"

definition risk_evaluator :: "judge \<Rightarrow> nat \<Rightarrow> RiskSubgraphState \<Rightarrow> RiskSubgraphState \<times> nat" where
  "risk_evaluator judge n state =
     (case r_worker_output state of
        None \<Rightarrow> (risk_evaluator_failed state ''No worker output to evaluate'', n)
      | Some out \<Rightarrow>
          (case risk_invoke_chain judge 3 n of
             (Inl e, n') \<Rightarrow> (risk_evaluator_failed state e, n')
           | (Inr ev, n') \<Rightarrow>
               (\<lparr>r_symbol = r_symbol state, current_price = current_price state,
                 proposed_action = proposed_action state,
                 proposed_quantity = proposed_quantity state,
                 stop_loss = stop_loss state, take_profit = take_profit state,
                 r_worker_output = r_worker_output state,
                 r_evaluation = Some ev,
                 r_retry_count =
                   (if \<not> is_valid ev then r_retry_count state + 1 else r_retry_count state),
                 r_max_retries = r_max_retries state,
                 r_evaluator_feedback =
                   (if \<not> is_valid ev
                    then Some (Validation_failed (confidence ev) (quality_score ev) (issues ev))
                    else None),
                 r_completed = is_valid ev,
                 r_error = None\<rparr>, n')))"

section \<open>agents/risk/graph.py\<close>

text \<open>
  The human-escalation hook is an oracle: \<open>human h\<close> is the reply to the \<open>h\<close>-th prompt of
  the run, as \<^verbatim>\<open>input(...).strip().lower()\<close> gives it.  The decider returns the route, or
  \<open>Inl\<close> the message of the exception it raises, and the advanced prompt count.
\<close>

type_synonym human = "nat \<Rightarrow> string"

definition risk_should_retry_worker :: "human \<Rightarrow> nat \<Rightarrow> RiskSubgraphState \<Rightarrow> (string + route) \<times> nat" where
  "risk_should_retry_worker human h state =
     (case r_evaluation state of
        None \<Rightarrow> (Inr END, h)
      | Some ev \<Rightarrow>
          if is_valid ev then (Inr END, h)
          else if r_retry_count state > r_max_retries state then (Inr END, h)
          else
            let choice = human h
            in if choice = ''a'' then (Inl ''User aborted risk analysis'', Suc h)
               else if choice = ''n'' then (Inr END, Suc h)
               else (Inr To_worker, Suc h))"

text \<open>
  Modelled from the spec: the executor (section 4.2), as for the market subgraph, on the
  graph of \<^verbatim>\<open>create_risk_subgraph\<close>; an exception raised by the decider is not caught
  inside the graph and ends the invocation.  The two counters are the calls of the judgment
  function and the prompts made so far.
\<close>

fun risk_exec :: "nat \<Rightarrow> judge \<Rightarrow> human \<Rightarrow> node \<Rightarrow> nat \<Rightarrow> nat \<Rightarrow> RiskSubgraphState
                    \<Rightarrow> exec_error + RiskSubgraphState" where
  "risk_exec 0 judge human nd n h state = Inl StepLimitExceeded"
| "risk_exec (Suc budget) judge human Worker n h state =
     risk_exec budget judge human Evaluator n h (risk_worker state)"
| "risk_exec (Suc budget) judge human Evaluator n h state =
     (case risk_evaluator judge n state of
        (state', n') \<Rightarrow>
          (case risk_should_retry_worker human h state' of
             (Inl e, h') \<Rightarrow> Inl (Raised e)
           | (Inr END, h') \<Rightarrow> Inr state'
           | (Inr To_worker, h') \<Rightarrow> risk_exec budget judge human Worker n' h' state'))"

definition risk_invoke :: "nat \<Rightarrow> judge \<Rightarrow> human \<Rightarrow> RiskSubgraphState \<Rightarrow> exec_error + RiskSubgraphState" where
  "risk_invoke budget judge human state = risk_exec budget judge human Worker 0 0 state"

section \<open>context/schema.py and graph/hierarchical\_graph.py\<close>

text \<open>A value of a \<^verbatim>\<open>Dict[str, Any]\<close>; a dictionary is its item list, in insertion order.\<close>

datatype pyval =
    PNone
  | PBool bool
  | PInt int
  | PFloat real
  | PStr string
  | PList "pyval list"
  | PDict "(string \<times> pyval) list"

type_synonym pydict = "(string \<times> pyval) list"

text \<open>\<^verbatim>\<open>d[k] = v\<close>: an existing key keeps its place.\<close>

fun dict_set :: "pydict \<Rightarrow> string \<Rightarrow> pyval \<Rightarrow> pydict" where
  "dict_set [] k v = [(k, v)]"
| "dict_set ((k', v') # d) k v = (if k' = k then (k, v) # d else (k', v') # dict_set d k v)"

text \<open>The truth value of an \<^verbatim>\<open>Optional[Dict]\<close>: \<^verbatim>\<open>None\<close> and the empty dictionary are false.\<close>

fun truthy :: "pydict option \<Rightarrow> bool" where
  "truthy None = False"
| "truthy (Some d) = (d \<noteq> [])"

text \<open>
  \<^verbatim>\<open>DecisionContext\<close>, with the fields the graph's nodes read or write; the legacy tool
  contexts, the rule list and the metadata are left out.  \<^verbatim>\<open>symbol\<close>, \<^verbatim>\<open>prices\<close> and
  \<^verbatim>\<open>volumes\<close> carry the prefix \<open>ctx_\<close>.
\<close>

record DecisionContext =
  ctx_symbol :: string
  request_id :: string
  ctx_prices :: "real list"
  ctx_volumes :: "real list"
  supervisor_plan :: "pydict option"
  market_agent_output :: "pydict option"
  ml_agent_output :: "pydict option"
  sentiment_agent_output :: "pydict option"
  risk_agent_output :: "pydict option"
  decision_agent_output :: "pydict option"
  final_decision :: "pydict option"

text \<open>\<^verbatim>\<open>model_dump()\<close> of the risk worker output and of an evaluation.\<close>

definition dump_risk_output :: "RiskWorkerOutput \<Rightarrow> pydict" where
  "dump_risk_output out =
     [(''stop_loss_check'', PBool (wo_stop_loss_check out)),
      (''stop_loss_message'', PStr (stop_loss_message out)),
      (''position_size_check'', PBool (wo_position_size_check out)),
      (''position_size_message'', PStr (position_size_message out)),
      (''exposure_check'', PBool (wo_exposure_check out)),
      (''exposure_message'', PStr (exposure_message out)),
      (''all_checks_passed'', PBool (wo_all_checks_passed out)),
      (''risk_level'', PStr (risk_level out))]"

definition dump_evaluation :: "Evaluation \<Rightarrow> pydict" where
  "dump_evaluation ev =
     [(''is_valid'', PBool (is_valid ev)),
      (''confidence'', PFloat (confidence ev)),
      (''quality_score'', PFloat (quality_score ev)),
      (''issues'', PList (map PStr (issues ev))),
      (''summary'', PStr (summary ev)),
      (''recommendation'', PStr (recommendation ev))]"

text \<open>
  Modelled from the spec: the message of the executor's step-limit error (section 4.2);
  the library's own wording is not among the sources.
\<close>

fun str_exec_error :: "exec_error \<Rightarrow> string" where
  "str_exec_error StepLimitExceeded = ''step-limit exceeded''"
| "str_exec_error (Raised msg) = msg"

text \<open>
  The state the risk bridge builds.  The action and the quantity come from
  \<^verbatim>\<open>decision_agent_output\<close> when it is set; the state's validation accepts a string and
  an integer there (what the one writer of that field stores).  The validation library
  is not among the sources: its coercion of other values (a float such as 2.0 to an
  integer) is not modelled, and such values are treated as rejected.
\<close>

definition validation_error :: string where
  "validation_error = ''validation error for RiskSubgraphState''"

definition risk_state_of :: "DecisionContext \<Rightarrow> string + RiskSubgraphState" where
  "risk_state_of context =
     (let price = (if ctx_prices context \<noteq> [] then last (ctx_prices context) else 100);
          decided = (if truthy (decision_agent_output context)
                     then the (decision_agent_output context) else []);
          action = (case map_of decided ''action'' of None \<Rightarrow> PStr ''buy'' | Some v \<Rightarrow> v);
          quantity = (case map_of decided ''quantity'' of None \<Rightarrow> PInt 1 | Some v \<Rightarrow> v)
      in case (action, quantity) of
           (PStr a, PInt q) \<Rightarrow>
             Inr \<lparr>r_symbol = ctx_symbol context, current_price = price,
                  proposed_action = a, proposed_quantity = q,
                  stop_loss = None, take_profit = None,
                  r_worker_output = None, r_evaluation = None,
                  r_retry_count = 0, r_max_retries = 2, r_evaluator_feedback = None,
                  r_completed = False, r_error = None\<rparr>
         | _ \<Rightarrow> Inl validation_error)"

text \<open>The three updates of the bridge after the subgraph has returned.\<close>

definition store_risk_result :: "RiskSubgraphState \<Rightarrow> DecisionContext \<Rightarrow> DecisionContext" where
  "store_risk_result result context =
     (let c1 = (case r_worker_output result of
                  None \<Rightarrow> context
                | Some out \<Rightarrow> context\<lparr>risk_agent_output := Some (dump_risk_output out)\<rparr>);
          c2 = (case r_evaluation result of
                  None \<Rightarrow> c1
                | Some ev \<Rightarrow>
                    c1\<lparr>risk_agent_output :=
                         Some (dict_set (if truthy (risk_agent_output c1)
                                         then the (risk_agent_output c1) else [])
                                 ''evaluation'' (PDict (dump_evaluation ev)))\<rparr>);
          c3 = (case r_error result of
                  None \<Rightarrow> c2
                | Some e \<Rightarrow>
                    if e = [] then c2
                    else c2\<lparr>risk_agent_output :=
                              Some (dict_set (if truthy (risk_agent_output c2)
                                              then the (risk_agent_output c2) else [])
                                      ''error'' (PStr e))\<rparr>)
      in c3)"

text \<open>
  \<^verbatim>\<open>risk_subgraph_node\<close>: the whole body is inside \<^verbatim>\<open>try\<close>, and \<^verbatim>\<open>except Exception\<close> turns
  any exception, the one from the subgraph's invocation included, into the branch
  output \<^verbatim>\<open>{"error": str(e)}\<close>; the node then returns the context.
\<close>

definition risk_subgraph_node :: "nat \<Rightarrow> judge \<Rightarrow> human \<Rightarrow> DecisionContext \<Rightarrow> DecisionContext" where
  "risk_subgraph_node budget judge human context =
     (case risk_state_of context of
        Inl e \<Rightarrow> context\<lparr>risk_agent_output := Some [(''error'', PStr e)]\<rparr>
      | Inr state \<Rightarrow>
          (case risk_invoke budget judge human state of
             Inl e \<Rightarrow> context\<lparr>risk_agent_output := Some [(''error'', PStr (str_exec_error e))]\<rparr>
           | Inr result \<Rightarrow> store_risk_result result context))"

text \<open>The fallback router.\<close>

definition fallback_router :: "DecisionContext \<Rightarrow> string" where
  "fallback_router context =
     (if \<not> truthy (market_agent_output context) then ''market_subgraph''
      else if \<not> truthy (sentiment_agent_output context) then ''sentiment_subgraph''
      else if \<not> truthy (risk_agent_output context) then ''risk_subgraph''
      else if \<not> truthy (final_decision context) then ''final_decision''
      else ''END'')"

text \<open>
  The router.  Its judgment function gives \<open>Inr\<close> the \<^verbatim>\<open>next_action\<close> of the model's reply
  or \<open>Inl\<close> an exception's message; the parser admits only the values of the
  \<^verbatim>\<open>RouterDecision.next_action\<close> literal and raises on any other.  Every exception
  leads to the fallback router.
\<close>

definition next_actions :: "string list" where
  "next_actions = [''market_subgraph'', ''sentiment_subgraph'', ''risk_subgraph'',
                   ''final_decision'', ''END'']"

definition route_next_subgraph :: "(string + string) \<Rightarrow> DecisionContext \<Rightarrow> string" where
  "route_next_subgraph router_judge context =
     (if truthy (final_decision context) then ''END''
      else case router_judge of
             Inl e \<Rightarrow> fallback_router context
           | Inr next_action \<Rightarrow>
               if next_action \<in> set next_actions then next_action
               else fallback_router context)"

text \<open>
  The conditional-edge table that \<^verbatim>\<open>create_hierarchical_graph\<close> gives to the supervisor
  and to each of the three subgraph nodes: decision value to target, a node's name or
  the terminal marker.
\<close>

datatype target = Node string | Terminal

definition conditional_edges :: "(string \<times> target) list" where
  "conditional_edges =
     [(''market_subgraph'', Node ''market_subgraph''),
      (''sentiment_subgraph'', Node ''sentiment_subgraph''),
      (''risk_subgraph'', Node ''risk_subgraph''),
      (''final_decision'', Node ''final_decision''),
      (''END'', Terminal)]"

text \<open>The aggregator.\<close>

record FinalTradingDecision =
  fd_action :: string
  fd_confidence :: real
  quantity :: int
  reasoning :: string
  risk_approved :: bool
  fd_stop_loss :: "real option"
  fd_take_profit :: "real option"

definition dump_decision :: "FinalTradingDecision \<Rightarrow> pydict" where
  "dump_decision d =
     [(''action'', PStr (fd_action d)),
      (''confidence'', PFloat (fd_confidence d)),
      (''quantity'', PInt (quantity d)),
      (''reasoning'', PStr (reasoning d)),
      (''risk_approved'', PBool (risk_approved d)),
      (''stop_loss'', (case fd_stop_loss d of None \<Rightarrow> PNone | Some x \<Rightarrow> PFloat x)),
      (''take_profit'', (case fd_take_profit d of None \<Rightarrow> PNone | Some x \<Rightarrow> PFloat x))]"

text \<open>
  \<^verbatim>\<open>final_decision_node\<close>: the aggregator's judgment function is called once; it gives a
  parsed decision or \<open>Inl\<close> the message of the exception it raised.
\<close>

definition final_decision_node :: "(string + FinalTradingDecision) \<Rightarrow> DecisionContext \<Rightarrow> DecisionContext" where
  "final_decision_node aggregator_judge context =
     (case aggregator_judge of
        Inr decision \<Rightarrow>
          context\<lparr>final_decision := Some (dump_decision decision),
                  decision_agent_output := Some (dump_decision decision)\<rparr>
      | Inl e \<Rightarrow>
          context\<lparr>final_decision :=
                    Some [(''action'', PStr ''hold''),
                          (''confidence'', PFloat 0),
                          (''quantity'', PInt 0),
                          (''reasoning'', PStr (''Error in decision synthesis: '' @ e)),
                          (''risk_approved'', PBool False)]\<rparr>)"

section \<open>Stubs for the test scenarios\<close>

text \<open>
  A deterministic worker computation, a judgment function that rejects every call, one
  that fails every call, and the states the scenarios start from.
\<close>

definition stub_output :: MarketWorkerOutput where
  "stub_output = \<lparr>rsi = Num 50, rsi_signal = ''neutral'', ema_short = 100, ema_long = 100,
     ema_signal = ''neutral'', volume_ratio = 1, volume_signal = ''normal'',
     trend_direction = ''neutral'', trend_strength = 0\<rparr>"

definition stub_compute :: market_compute where
  "stub_compute name ps vs = Inr stub_output"

definition rejection :: Evaluation where
  "rejection = \<lparr>is_valid = False, confidence = 1 / 2, quality_score = 1 / 2,
     issues = [''signals contradict''], summary = ''unclear'', recommendation = ''none''\<rparr>"

definition always_reject :: judge where
  "always_reject n = Inr rejection"

definition always_fail :: judge where
  "always_fail n = Inl ''timeout''"

definition btc :: MarketSubgraphState where
  "btc = initial_state ''BTC'' [100, 101] [10, 10]"

text \<open>
  The state before the third evaluator pass of a run with \<open>max_retries = 2\<close> whose
  count was carried through two rejections, and the state before the first pass of a
  run with \<open>max_retries = 0\<close>.
\<close>

definition third_pass :: MarketSubgraphState where
  "third_pass = (market_worker stub_compute btc)\<lparr>retry_count := 2\<rparr>"

definition no_retries :: MarketSubgraphState where
  "no_retries = (market_worker stub_compute btc)\<lparr>max_retries := 0\<rparr>"

text \<open>
  A context in which the market and the sentiment branch have reported, the risk state
  the bridge builds from it, and a human who answers every prompt with abort.
\<close>

definition analysed :: DecisionContext where
  "analysed = \<lparr>ctx_symbol = ''BTC'', request_id = ''r1'', ctx_prices = [100, 101],
      ctx_volumes = [10, 10], supervisor_plan = None,
      market_agent_output = Some [(''trend_direction'', PStr ''neutral'')],
      ml_agent_output = None,
      sentiment_agent_output = Some [(''sentiment_label'', PStr ''neutral'')],
      risk_agent_output = None, decision_agent_output = None, final_decision = None\<rparr>"

definition risk_request :: RiskSubgraphState where
  "risk_request = \<lparr>r_symbol = ''BTC'', current_price = 101, proposed_action = ''buy'',
      proposed_quantity = 1, stop_loss = None, take_profit = None,
      r_worker_output = None, r_evaluation = None, r_retry_count = 0, r_max_retries = 2,
      r_evaluator_feedback = None, r_completed = False, r_error = None\<rparr>"

definition abort :: human where
  "abort h = ''a''"

section \<open>The fallback router in the spec's words\<close>

text \<open>
  The spec's description of the fallback router: a fixed priority order of branches, the
  first whose output is still absent, otherwise finalize if the final decision is unset,
  otherwise the terminal marker.  The order is the one of the source, in which the ML
  branch is disabled; an output is absent when it is \<^verbatim>\<open>None\<close> or empty.
\<close>

definition priority_order :: "(string \<times> (DecisionContext \<Rightarrow> pydict option)) list" where
  "priority_order = [(''market_subgraph'', market_agent_output),
                     (''sentiment_subgraph'', sentiment_agent_output),
                     (''risk_subgraph'', risk_agent_output)]"

definition first_absent :: "DecisionContext \<Rightarrow> string" where
  "first_absent context =
     (case find (\<lambda>(name, output). \<not> truthy (output context)) priority_order of
        Some (name, output) \<Rightarrow> name
      | None \<Rightarrow> if \<not> truthy (final_decision context) then ''final_decision'' else ''END'')"

section \<open>Properties of the risk tool\<close>

lemma position_size_block_non_buy:
  "act \<noteq> ''buy'' \<Longrightarrow>
   position_size_block act sz bal params checks = checks"
  by (simp add: position_size_block_def)

lemma exposure_block_non_buy:
  "act \<noteq> ''buy'' \<Longrightarrow>
   all_checks_passed (exposure_block act ps bal params checks) = all_checks_passed checks
   \<and> blockers (exposure_block act ps bal params checks) = blockers checks"
  by (simp add: exposure_block_def Let_def)

lemma volatility_block_non_buy:
  "act \<noteq> ''buy'' \<Longrightarrow>
   all_checks_passed (volatility_block act v params checks) = all_checks_passed checks
   \<and> blockers (volatility_block act v params checks) = blockers checks"
  by (simp add: volatility_block_def Let_def)

lemma stop_loss_block_returns:
  "entry_price \<noteq> Some 0 \<Longrightarrow>
   \<exists>checks'. stop_loss_block act cp entry_price params checks = Inr checks'
     \<and> all_checks_passed checks' = all_checks_passed checks
     \<and> blockers checks' = blockers checks"
  by (cases entry_price) (simp_all add: stop_loss_block_def check_stop_loss_def Let_def)

text \<open>
  Claim C9, as amended.  For every call of \<^verbatim>\<open>check_risk_constraints\<close> whose
  \<^verbatim>\<open>proposed_action\<close> is not \<^verbatim>\<open>"buy"\<close> and whose \<^verbatim>\<open>entry_price\<close> is absent or non-zero, the
  call returns a dictionary with \<^verbatim>\<open>all_checks_passed\<close> true, no blockers and
  \<^verbatim>\<open>risk_signal = "proceed"\<close>, whatever the size, the balance, the positions, the
  volatility and the risk parameters are.
\<close>

theorem check_risk_constraints_non_buy:
  assumes "act \<noteq> ''buy''" and "entry_price \<noteq> Some 0"
  shows "\<exists>r. check_risk_constraints sy act proposed_size price
                account_balance current_positions entry_price volatility risk_params = Inr r
            \<and> all_checks_passed r \<and> blockers r = [] \<and> risk_signal r = Some ''proceed''"
proof -
  let ?positions = "case current_positions of None \<Rightarrow> [] | Some ps \<Rightarrow> ps"
  let ?params = "case risk_params of None \<Rightarrow> default_risk_params | Some p \<Rightarrow> p"
  let ?checks = "\<lparr>rc_symbol = sy, rc_proposed_action = act,
                    all_checks_passed = True, warnings = [], blockers = [],
                    position_size_check = None, exposure_check = None,
                    volatility_check = None, stop_loss_check = None,
                    recommended_action = None, risk_signal = None\<rparr>"
  let ?c3 = "volatility_block act volatility ?params
               (exposure_block act ?positions account_balance ?params
                 (position_size_block act proposed_size account_balance ?params ?checks))"
  have c3: "all_checks_passed ?c3 \<and> blockers ?c3 = []"
    using assms(1)
    by (simp add: volatility_block_non_buy exposure_block_non_buy position_size_block_non_buy)
  obtain c4 where c4: "stop_loss_block act price entry_price ?params ?c3 = Inr c4"
      "all_checks_passed c4 = all_checks_passed ?c3" "blockers c4 = blockers ?c3"
    using stop_loss_block_returns [OF assms(2)] by blast
  have "check_risk_constraints sy act proposed_size price
          account_balance current_positions entry_price volatility risk_params
        = Inr (final_recommendation c4)"
    using c4(1) by (simp add: check_risk_constraints_def Let_def)
  moreover have "all_checks_passed (final_recommendation c4)"
      "blockers (final_recommendation c4) = []"
      "risk_signal (final_recommendation c4) = Some ''proceed''"
    using c3 c4(2,3) by (simp_all add: final_recommendation_def)
  ultimately show ?thesis by blast
qed

text \<open>
  The theorem at a sell order far over every limit: size 1000000 on a balance of 10000,
  exposure 90 percent, volatility 0.9, entry price 60000.
\<close>

theorem check_risk_constraints_non_buy_witness:
  "\<exists>r. check_risk_constraints ''BTC/USD'' ''sell'' 1000000 50000 10000
          (Some [(''ETH'', 9000)]) (Some 60000) (9 / 10) None = Inr r
       \<and> all_checks_passed r \<and> blockers r = [] \<and> risk_signal r = Some ''proceed''"
  using check_risk_constraints_non_buy [of "''sell''" "Some 60000" "''BTC/USD''" 1000000 50000 10000
          "Some [(''ETH'', 9000)]" "9 / 10" None]
  by simp

text \<open>
  Claim C9 as stated fails: a sell order with \<^verbatim>\<open>entry_price = 0\<close> reaches the stop-loss check,
  whose division raises, and the call has no result.
\<close>

theorem check_risk_constraints_zero_entry_price:
  "check_risk_constraints ''BTC/USD'' ''sell'' 1000 50000 10000 None (Some 0) (2 / 100) None
     = Inl ZeroDivisionError"
  by (simp add: check_risk_constraints_def stop_loss_block_def check_stop_loss_def Let_def)

section \<open>Properties of calculate\_rsi\<close>

text \<open>
  Claim C10 at its failing input, one price and \<open>period = 0\<close>, whatever the price and
  the arithmetic are: the length test passes (1 is not below 1), the difference array
  is empty, \<^verbatim>\<open>gains[-0:]\<close> and \<^verbatim>\<open>losses[-0:]\<close> are the whole, empty arrays, their means are
  nan, \<^verbatim>\<open>avg_loss == 0\<close> is false, and the formula on nan gives nan: the function returns
  nan, which is no value between 0 and 100.
\<close>

theorem calculate_rsi_period_zero_nan:
  "calculate_rsi ops [x] 0 = NaN"
  by (simp add: calculate_rsi_def equals_zero_def avg_gain_def avg_loss_def gains_def
        losses_def np_mean_def slice_from_def lift2_def)

section \<open>Properties of the market subgraph\<close>

lemma evaluator_verdict:
  assumes "worker_output s = Some out" and "judge n = Inr ev"
  shows "market_evaluator judge n s =
     (\<lparr>symbol = symbol s, prices = prices s, volumes = volumes s,
       worker_output = worker_output s, evaluation = Some ev,
       retry_count = (if \<not> is_valid ev then retry_count s + 1 else retry_count s),
       max_retries = max_retries s,
       evaluator_feedback = (if \<not> is_valid ev
           then Some (Validation_failed (confidence ev) (quality_score ev) (issues ev)) else None),
       completed = is_valid ev, error = None\<rparr>, Suc n)"
  using assms by (simp add: market_evaluator_def numeral_3_eq_3)

lemma evaluator_failed_guard:
  "\<not> retry_count (evaluator_failed s msg) > max_retries (evaluator_failed s msg)"
  by (simp add: evaluator_failed_def)

lemma worker_defaults:
  "retry_count (market_worker compute s) = 0 \<and> max_retries (market_worker compute s) = 2"
  by (simp add: market_worker_def split: sum.splits)

text \<open>
  With a worker computation that succeeds and a judgment function that rejects every
  call, no budget lets the run reach the terminal marker: after each worker execution
  the count is 0 and the bound 2, so each rejection leaves the count at 1 and the exit
  decision routes back to the worker.
\<close>

lemma rejecting_run_never_ends:
  assumes judge: "\<And>k. \<exists>ev. judge k = Inr ev \<and> \<not> is_valid ev"
    and compute: "\<And>name ps vs. \<exists>out. compute name ps vs = Inr out"
  shows "snd (exec budget judge compute Worker n s) = Inl StepLimitExceeded
       \<and> (worker_output s \<noteq> None \<and> retry_count s = 0 \<and> max_retries s = 2 \<longrightarrow>
            snd (exec budget judge compute Evaluator n s) = Inl StepLimitExceeded)"
proof (induction budget arbitrary: n s)
  case 0
  show ?case by simp
next
  case (Suc budget)
  have ihw: "snd (exec budget judge compute Worker n' s') = Inl StepLimitExceeded" for n' s'
    using Suc.IH [of n' s'] by blast
  have ihe: "snd (exec budget judge compute Evaluator n' s') = Inl StepLimitExceeded"
    if "worker_output s' \<noteq> None" "retry_count s' = 0" "max_retries s' = 2" for n' s'
    using Suc.IH [of n' s'] that by blast
  have ev: "snd (exec (Suc budget) judge compute Evaluator n s) = Inl StepLimitExceeded"
    if s: "worker_output s \<noteq> None" "retry_count s = 0" "max_retries s = 2"
  proof -
    obtain out where out: "worker_output s = Some out" using s(1) by blast
    obtain ev where v: "judge n = Inr ev" "\<not> is_valid ev" using judge by blast
    obtain s' where step: "market_evaluator judge n s = (s', Suc n)"
        and s': "evaluation s' = Some ev" "retry_count s' = 1" "max_retries s' = 2"
      using s(2,3) v evaluator_verdict [of s out judge n ev, OF out v(1)] by simp
    have "should_retry_worker s' = To_worker"
      using s' v(2) by (simp add: should_retry_worker_def)
    then show ?thesis
      using step ihw [of "Suc n" s'] by (simp add: split_def)
  qed
  have wk: "snd (exec (Suc budget) judge compute Worker n s) = Inl StepLimitExceeded"
  proof -
    obtain out where "compute (symbol s) (prices s) (volumes s) = Inr out"
      using compute by blast
    then have "worker_output (market_worker compute s) \<noteq> None"
      by (simp add: market_worker_def)
    from ihe [OF this, of n] worker_defaults [of compute s] show ?thesis
      by (simp add: split_def Let_def)
  qed
  show ?case using ev wk by blast
qed

lemma scenario_a_every_budget:
  "invoke budget always_reject stub_compute s = Inl StepLimitExceeded"
proof -
  have "\<And>k. \<exists>ev. always_reject k = Inr ev \<and> \<not> is_valid ev"
    by (simp add: always_reject_def rejection_def)
  moreover have "\<And>name ps vs. \<exists>out. stub_compute name ps vs = Inr out"
    by (simp add: stub_compute_def)
  ultimately show ?thesis
    unfolding invoke_def using rejecting_run_never_ends by blast
qed

text \<open>
  Claim C1 at its failing input, Scenario A (\<open>max_retries = 2\<close>, every call of the
  judgment function rejected): the run does not end at three rejections.  Whatever the
  step budget is, the run ends with the step-limit error and no final state; within a
  budget of 25 node executions the evaluator rejects twelve times.
\<close>

theorem scenario_a_no_exit:
  "invoke budget always_reject stub_compute btc = Inl StepLimitExceeded
   \<and> length (filter (\<lambda>(nd, s). nd = Evaluator)
        (fst (exec 25 always_reject stub_compute Worker 0 btc))) = 12"
proof -
  have "length (filter (\<lambda>(nd, s). nd = Evaluator)
          (fst (exec 25 always_reject stub_compute Worker 0 btc))) = 12"
    by code_simp
  then show ?thesis using scenario_a_every_budget [of budget btc] by simp
qed

text \<open>
  Claim C2 at its failing input, Scenario A: the evaluator raises \<open>retry_count\<close> to 1 and
  the next worker execution lowers it to 0, every time round.
\<close>

theorem worker_resets_retry_count:
  "map (\<lambda>(nd, s). (nd, retry_count s)) (fst (exec 6 always_reject stub_compute Worker 0 btc))
     = [(Worker, 0), (Evaluator, 1), (Worker, 0), (Evaluator, 1), (Worker, 0), (Evaluator, 1)]"
  by code_simp

text \<open>
  Claim C3, as amended.  Whenever the state the evaluator returns has an evaluation with
  \<open>is_valid = False\<close> and \<open>retry_count > max_retries\<close>, the exit decision returns the
  terminal marker and the run ends in that very state: the failing evaluation (and its
  issues) is in the final state, \<open>error\<close> is unset, and \<open>completed\<close> is \<open>False\<close>, since
  the evaluator sets \<open>completed\<close> to the verdict's \<open>is_valid\<close> and the decision writes
  no field.
\<close>

theorem exhausted_exit:
  assumes "market_evaluator judge n s = (s', n')"
    and "evaluation s' = Some ev" and "\<not> is_valid ev"
    and "retry_count s' > max_retries s'"
  shows "should_retry_worker s' = END
       \<and> snd (exec (Suc budget) judge compute Evaluator n s) = Inr s'
       \<and> \<not> completed s' \<and> error s' = None \<and> evaluation s' = Some ev"
proof -
  have route: "should_retry_worker s' = END"
    using assms(2,4) by (simp add: should_retry_worker_def)
  then have run: "snd (exec (Suc budget) judge compute Evaluator n s) = Inr s'"
    using assms(1) by simp
  have "\<not> completed s' \<and> error s' = None"
  proof (cases "worker_output s")
    case None
    then have "s' = evaluator_failed s ''No worker output to evaluate''"
      using assms(1) by (simp add: market_evaluator_def)
    then show ?thesis using assms(4) evaluator_failed_guard by blast
  next
    case (Some out)
    show ?thesis
    proof (cases "fst (invoke_chain judge 3 n)")
      case None
      then have "s' = evaluator_failed s unbound_evaluation"
        using assms(1) Some by (simp add: market_evaluator_def split: prod.splits)
      then show ?thesis using assms(4) evaluator_failed_guard by blast
    next
      case verdict: (Some ev')
      then show ?thesis
        using assms(1,2,3) Some
        by (auto simp: market_evaluator_def split: prod.splits)
    qed
  qed
  then show ?thesis using route run assms(2) by simp
qed

text \<open>The theorem at the first rejection of a run with \<open>max_retries = 0\<close>.\<close>

theorem exhausted_exit_witness:
  "should_retry_worker (fst (market_evaluator always_reject 0 no_retries)) = END
   \<and> snd (exec 1 always_reject stub_compute Evaluator 0 no_retries)
       = Inr (fst (market_evaluator always_reject 0 no_retries))
   \<and> \<not> completed (fst (market_evaluator always_reject 0 no_retries))
   \<and> error (fst (market_evaluator always_reject 0 no_retries)) = None
   \<and> evaluation (fst (market_evaluator always_reject 0 no_retries)) = Some rejection"
proof -
  have a: "market_evaluator always_reject 0 no_retries
             = (fst (market_evaluator always_reject 0 no_retries), 1)" by code_simp
  have b: "evaluation (fst (market_evaluator always_reject 0 no_retries)) = Some rejection"
    by code_simp
  have c: "\<not> is_valid rejection" by code_simp
  have d: "retry_count (fst (market_evaluator always_reject 0 no_retries))
            > max_retries (fst (market_evaluator always_reject 0 no_retries))" by code_simp
  from exhausted_exit [OF a b c d, of 0 stub_compute] show ?thesis by simp
qed

text \<open>
  Claim C3 as stated fails: on the state with the evaluation present, \<open>is_valid = False\<close>
  and \<open>retry_count = 3 > 2 = max_retries\<close> the run ends, and it ends with
  \<open>completed = False\<close>.
\<close>

theorem exhausted_exit_not_completed:
  "evaluation (fst (market_evaluator always_reject 2 third_pass)) = Some rejection
   \<and> \<not> is_valid rejection
   \<and> retry_count (fst (market_evaluator always_reject 2 third_pass))
       > max_retries (fst (market_evaluator always_reject 2 third_pass))
   \<and> snd (exec 1 always_reject stub_compute Evaluator 2 third_pass)
       = Inr (fst (market_evaluator always_reject 2 third_pass))
   \<and> \<not> completed (fst (market_evaluator always_reject 2 third_pass))"
  by code_simp

text \<open>
  Claim C4 at its failing input, a judgment function that fails every call: the
  evaluator's handler returns \<open>completed = True\<close> with the default evaluation, the exit
  decision routes to the worker all the same, and the worker runs again.
\<close>

theorem completed_not_terminal:
  "map (\<lambda>(nd, s). (nd, completed s)) (fst (exec 4 always_fail stub_compute Worker 0 btc))
     = [(Worker, False), (Evaluator, True), (Worker, False), (Evaluator, True)]"
  by code_simp

text \<open>
  Claim C8.  If the three calls of the judgment function that one evaluator execution
  makes all fail, the evaluator returns a state (no fault leaves it) after exactly three
  calls, whose evaluation is well formed with \<open>is_valid = False\<close>, \<open>confidence = 0\<close>,
  \<open>quality_score = 0\<close> and one issues entry describing the failure; the failure is
  also recorded in \<open>error\<close>, and the worker output is kept.
\<close>

theorem judge_failure_default:
  assumes "worker_output s = Some out"
    and "judge n = Inl e1" and "judge (Suc n) = Inl e2" and "judge (Suc (Suc n)) = Inl e3"
  shows "\<exists>s'. market_evaluator judge n s = (s', n + 3)
       \<and> evaluation s' = Some \<lparr>is_valid = False, confidence = 0, quality_score = 0,
             issues = [''Evaluation failed: '' @ unbound_evaluation],
             summary = ''Evaluation error'',
             recommendation = ''Unable to evaluate - treat with caution''\<rparr>
       \<and> error s' = Some (''Evaluator failed: '' @ unbound_evaluation)
       \<and> worker_output s' = worker_output s"
  using assms by (simp add: market_evaluator_def evaluator_failed_def numeral_3_eq_3)

text \<open>The theorem at a judgment function that times out on every call.\<close>

theorem judge_failure_default_witness:
  "\<exists>s'. market_evaluator always_fail 0 (market_worker stub_compute btc) = (s', 3)
       \<and> evaluation s' = Some \<lparr>is_valid = False, confidence = 0, quality_score = 0,
             issues = [''Evaluation failed: '' @ unbound_evaluation],
             summary = ''Evaluation error'',
             recommendation = ''Unable to evaluate - treat with caution''\<rparr>
       \<and> error s' = Some (''Evaluator failed: '' @ unbound_evaluation)
       \<and> worker_output s' = Some stub_output"
  using judge_failure_default [of "market_worker stub_compute btc" stub_output always_fail 0
          "''timeout''" "''timeout''" "''timeout''"]
  by (simp add: market_worker_def stub_compute_def always_fail_def btc_def initial_state_def)

section \<open>Properties of the parent graph\<close>

text \<open>
  Claim C5 at its failing input: the risk evaluation is rejected and the human answers
  abort.  The decider raises and the subgraph's invocation ends with that exception, but
  the bridge node returns the context with the exception's text as the risk branch's
  output and no final decision; the graph goes on to the router, whose fallback sends
  it to the aggregator, and the aggregator writes a final decision.
\<close>

theorem abort_is_absorbed:
  "risk_state_of analysed = Inr risk_request
   \<and> risk_invoke 25 always_reject abort risk_request
       = Inl (Raised ''User aborted risk analysis'')
   \<and> risk_subgraph_node 25 always_reject abort analysed
       = analysed\<lparr>risk_agent_output := Some [(''error'', PStr ''User aborted risk analysis'')]\<rparr>
   \<and> route_next_subgraph (Inl ''router unavailable'')
        (risk_subgraph_node 25 always_reject abort analysed) = ''final_decision''
   \<and> map_of conditional_edges ''final_decision'' = Some (Node ''final_decision'')
   \<and> truthy (final_decision (final_decision_node (Inl ''no verdict'')
        (risk_subgraph_node 25 always_reject abort analysed)))"
  by code_simp

text \<open>
  Claim C6.  When the aggregator's judgment call fails with message \<open>e\<close>, the
  final-decision node writes the final decision \<^verbatim>\<open>hold\<close> with confidence 0, quantity 0
  and \<^verbatim>\<open>risk_approved\<close> false, its reasoning being the failure's message; and whatever the
  judgment call gives, the node leaves a non-empty final decision in the context.
\<close>

theorem final_decision_fallback:
  "final_decision (final_decision_node (Inl e) context)
     = Some [(''action'', PStr ''hold''), (''confidence'', PFloat 0), (''quantity'', PInt 0),
             (''reasoning'', PStr (''Error in decision synthesis: '' @ e)),
             (''risk_approved'', PBool False)]
   \<and> truthy (final_decision (final_decision_node aggregator_judge context))"
  by (cases aggregator_judge) (simp_all add: final_decision_node_def dump_decision_def)

text \<open>
  Claim C7.  For every context the fallback router returns what the spec describes: the
  first branch of the priority order whose output is absent, otherwise
  \<^verbatim>\<open>final_decision\<close> if the final decision is unset, otherwise \<^verbatim>\<open>END\<close>; and its value is
  a key of the graph's conditional-edge table.
\<close>

theorem fallback_router_total:
  "fallback_router context = first_absent context
   \<and> (\<exists>t. map_of conditional_edges (fallback_router context) = Some t)"
  by (simp add: fallback_router_def first_absent_def priority_order_def conditional_edges_def)

end
